theory Spec2Isabelle
  imports Main "HOL-Library.Word"
begin

section \<open>Errors\<close>

text \<open>
  Go errors as values. The sentinels \<open>ErrWrongInputCardinality\<close> (package pipeline) and
  \<open>ErrorNotFound\<close> (package orm) are compared by identity in the source, so each is a
  constructor of its own. \<open>New\<close>, \<open>Wrapf\<close> and \<open>WithStack\<close> are the constructors of
  github.com/pkg/errors that the source calls; \<open>Foreign\<close> stands for an error produced
  by a collaborator (a decoder, the store, the network).
\<close>

datatype err =
    ErrWrongInputCardinality
  | ErrorNotFound
  | New string
  | Wrapf err string
  | WithStack err
  | Foreign string

text \<open>\<open>errors.Cause\<close>: strips the wrappers down to the innermost error.\<close>

fun Cause :: "err \<Rightarrow> err" where
  "Cause (Wrapf e m) = Cause e"
| "Cause (WithStack e) = Cause e"
| "Cause e = e"

text \<open>The text of an error (its \<open>Error()\<close> method): a wrapper prefixes its message.\<close>

fun err_text :: "err \<Rightarrow> string" where
  "err_text ErrWrongInputCardinality = ''wrong number of task inputs''"
| "err_text ErrorNotFound = ''record not found''"
| "err_text (New m) = m"
| "err_text (Wrapf e m) = m @ '': '' @ err_text e"
| "err_text (WithStack e) = err_text e"
| "err_text (Foreign m) = m"

text \<open>Does a byte string occur, contiguously, in another one?\<close>

fun starts_with :: "string \<Rightarrow> string \<Rightarrow> bool" where
  "starts_with [] ys = True"
| "starts_with (x # xs) [] = False"
| "starts_with (x # xs) (y # ys) = (x = y \<and> starts_with xs ys)"

fun occurs_in :: "string \<Rightarrow> string \<Rightarrow> bool" where
  "occurs_in xs [] = (xs = [])"
| "occurs_in xs (y # ys) = (starts_with xs (y # ys) \<or> occurs_in xs ys)"

text \<open>An error is annotated with a document when the document occurs in its text.\<close>

definition annotated_with :: "err \<Rightarrow> string \<Rightarrow> bool" where
  "annotated_with e doc = occurs_in doc (err_text e)"

text \<open>
  Modelled from the spec: \<open>withStack\<close> is a helper of package job that is not part of
  the sources at hand. The spec says that errors are always enriched with a call-site
  stack annotation when first produced; it is deferred on the named result \<open>err\<close>, so
  it acts on the error that is being returned and leaves a nil error alone.
\<close>

definition withStack :: "err option \<Rightarrow> err option" where
  "withStack e = map_option WithStack e"

section \<open>Package pipeline: results, tasks and the bridge task\<close>

type_synonym bytes = string

text \<open>
  Modelled from the spec: \<open>models.ID\<close> and \<open>models.NewID\<close> are not part of the sources
  at hand. The spec asks for an identifier that is freshly generated at every
  invocation and never reused; the generator is a counter that is part of the world.
\<close>

datatype ID = ID nat

text \<open>
  A value of type \<open>interface{}\<close>: nil, a byte slice, an identifier, or a value of any
  other dynamic type (of which only a description is kept).
\<close>

datatype iface = NilValue | Bytes bytes | IDValue ID | Other string

text \<open>\<open>HttpRequestData\<close> is a Go map; a nil map is \<open>None\<close>.\<close>

type_synonym HttpRequestData = "(string \<rightharpoonup> iface) option"

record Result =
  Value :: iface
  Error :: "err option"

record Config =
  DefaultHTTPTimeout :: nat

record BridgeType =
  BridgeURL :: string

record ORM =
  FindBridge :: "string \<Rightarrow> err + BridgeType"

record HTTPTask =
  URL :: string
  Method :: string
  http_RequestData :: HttpRequestData
  AllowUnrestrictedNetworkAccess :: bool
  http_config :: Config

record BridgeTask =
  Name :: string
  RequestData :: HttpRequestData
  orm :: ORM
  config :: Config

text \<open>
  What a run does to the world outside the task: every call of a collaborator is
  recorded, in order, and the identifier generator advances.
\<close>

datatype call =
    CallFindBridge string
  | CallNewID
  | CallHTTP HTTPTask
  | CallDebugw bytes string

record World =
  nextID :: nat
  calls :: "call list"

text \<open>
  Modelled from the spec: \<open>models.NewID\<close> is not part of the sources at hand. Every
  call yields an identifier that no earlier call has yielded.
\<close>

definition NewID :: "World \<Rightarrow> ID \<times> World" where
  "NewID w = (ID (nextID w), w\<lparr>nextID := Suc (nextID w), calls := calls w @ [CallNewID]\<rparr>)"

text \<open>A Go call either returns or panics.\<close>

datatype 'a outcome = Returns 'a | Panics

text \<open>\<open>getBridgeURLFromName\<close>: the registry is asked for the bridge named by the task.\<close>

definition getBridgeURLFromName :: "BridgeTask \<Rightarrow> World \<Rightarrow> (err + string) \<times> World" where
  "getBridgeURLFromName t w =
     (let w1 = w\<lparr>calls := calls w @ [CallFindBridge (Name t)]\<rparr>
      in case FindBridge (orm t) (Name t) of
           Inl e \<Rightarrow> (Inl e, w1)
         | Inr bridge \<Rightarrow> (Inr (BridgeURL bridge), w1))"

text \<open>
  \<open>BridgeTask.Run\<close>. The receiver is a pointer, so the task is returned with the
  result. The HTTP stage \<open>HTTPTask.Run\<close> is a parameter: \<open>http\<close> is what the stage
  returns for a task and its inputs. The collaborators \<open>orm\<close> and \<open>config\<close> are taken to
  be injected. An assignment to an entry of a nil map panics, and so does the type
  assertion \<open>result.Value.([]byte)\<close> on a value that is not a byte slice.
\<close>

definition BridgeTask_Run ::
  "(HTTPTask \<Rightarrow> Result list \<Rightarrow> Result) \<Rightarrow> BridgeTask \<Rightarrow> Result list \<Rightarrow> World
     \<Rightarrow> Result outcome \<times> BridgeTask \<times> World" where
  "BridgeTask_Run http t inputs w =
     (if length inputs > 0 then
        (Returns \<lparr>Value = NilValue,
                  Error = Some (Wrapf ErrWrongInputCardinality ''BridgeTask requires 0 inputs'')\<rparr>,
         t, w)
      else
        case getBridgeURLFromName t w of
          (Inl e, w1) \<Rightarrow> (Returns \<lparr>Value = NilValue, Error = Some e\<rparr>, t, w1)
        | (Inr url, w1) \<Rightarrow>
            (let t1 = (if RequestData t = None then t\<lparr>RequestData := Some Map.empty\<rparr> else t);
                 (i, w2) = NewID w1
             in case RequestData t1 of
                  None \<Rightarrow> (Panics, t1, w2)
                | Some m \<Rightarrow>
                    (let t2 = t1\<lparr>RequestData := Some (m(''id'' \<mapsto> IDValue i))\<rparr>;
                         h = \<lparr>URL = url, Method = ''POST'', http_RequestData = RequestData t2,
                              AllowUnrestrictedNetworkAccess = True, http_config = config t2\<rparr>;
                         result = http h inputs;
                         w3 = w2\<lparr>calls := calls w2 @ [CallHTTP h]\<rparr>
                     in if Error result \<noteq> None then (Returns result, t2, w3)
                        else case Value result of
                               Bytes answer \<Rightarrow>
                                 (Returns result, t2,
                                  w3\<lparr>calls := calls w3 @ [CallDebugw answer url]\<rparr>)
                             | _ \<Rightarrow> (Panics, t2, w3))))"

text \<open>
  Modelled from the spec: \<open>HTTPTask.Run\<close> is not part of the sources at hand. The spec
  describes the HTTP stage as performing a network request and returning the raw bytes
  of the response, a network failure being surfaced as the error of the result. The
  network is a parameter: what a request is answered with.
\<close>

definition HTTPTask_Run :: "(HTTPTask \<Rightarrow> err + bytes) \<Rightarrow> HTTPTask \<Rightarrow> Result list \<Rightarrow> Result" where
  "HTTPTask_Run network h inputs =
     (case network h of
        Inl e \<Rightarrow> \<lparr>Value = NilValue, Error = Some e\<rparr>
      | Inr body \<Rightarrow> \<lparr>Value = Bytes body, Error = None\<rparr>)"

section \<open>Package job: fetchers and their decoding\<close>

datatype Notifiee = Notifiee nat

text \<open>
  Modelled from the spec: the transformer types and their \<open>SetNotifiee\<close> are not part of
  the sources at hand. The spec describes a transformer as a stage that records the sink
  and hands it on to the transformers it owns. \<open>t_notified\<close> counts the calls of
  \<open>SetNotifiee\<close> that the stage has received.
\<close>

datatype Transformer =
  Transformer (t_ID: nat) (t_notifiee: "Notifiee option") (t_notified: nat)
    (t_owned: "Transformer list")

fun Transformer_SetNotifiee :: "Notifiee \<Rightarrow> Transformer \<Rightarrow> Transformer" where
  "Transformer_SetNotifiee n (Transformer i s k ts) =
     Transformer i (Some n) (Suc k) (map (Transformer_SetNotifiee n) ts)"

text \<open>
  \<open>BaseFetcher\<close>. The source assigns \<open>f.notifiee\<close>, so the field is part of the struct;
  \<open>notified\<close> counts the calls of \<open>SetNotifiee\<close> that the fetcher has received.
\<close>

record BaseFetcher =
  fetcher_ID :: nat
  Transformers :: "Transformer list"
  OffchainReportingJobID :: ID
  FluxMonitorJobID :: ID
  DirectRequestJobID :: ID
  notifiee :: "Notifiee option"
  notified :: nat

definition GetID :: "BaseFetcher \<Rightarrow> nat" where
  "GetID f = fetcher_ID f"

definition BaseFetcher_SetNotifiee :: "Notifiee \<Rightarrow> BaseFetcher \<Rightarrow> BaseFetcher" where
  "BaseFetcher_SetNotifiee n f =
     f\<lparr>notifiee := Some n, notified := Suc (notified f),
       Transformers := map (Transformer_SetNotifiee n) (Transformers f)\<rparr>"

text \<open>
  Every stage that a fetcher transitively owns, the fetcher first: for each stage its
  sink and the number of \<open>SetNotifiee\<close> calls it has received.
\<close>

fun transformer_stages :: "Transformer \<Rightarrow> (Notifiee option \<times> nat) list" where
  "transformer_stages (Transformer i s k ts) = (s, k) # concat (map transformer_stages ts)"

definition fetcher_stages :: "BaseFetcher \<Rightarrow> (Notifiee option \<times> nat) list" where
  "fetcher_stages f =
     (notifiee f, notified f) # concat (map transformer_stages (Transformers f))"

definition FetcherTypeBridge :: string where "FetcherTypeBridge = ''bridge''"
definition FetcherTypeHttp :: string where "FetcherTypeHttp = ''http''"
definition FetcherTypeMedian :: string where "FetcherTypeMedian = ''median''"

text \<open>
  The structs \<open>BridgeFetcher\<close>, \<open>HttpFetcher\<close> and \<open>MedianFetcher\<close> are not part of the
  sources at hand: they are the type parameters \<open>'b\<close>, \<open>'h\<close> and \<open>'m\<close>. A value of
  the interface \<open>Fetcher\<close> is one of them, or nil (\<open>None\<close>).
\<close>

datatype ('b, 'h, 'm) Fetcher = IsBridgeFetcher 'b | IsHttpFetcher 'h | IsMedianFetcher 'm

text \<open>
  \<open>json.Unmarshal\<close> at the four target types the source decodes into: a list of raw
  messages, the header with the field \<open>type\<close>, and the three fetcher structs.
\<close>

record ('b, 'h, 'm) Unmarshal =
  rawMessages :: "bytes \<Rightarrow> err + bytes list"
  header :: "bytes \<Rightarrow> err + string"
  bridgeFetcher :: "bytes \<Rightarrow> err + 'b"
  httpFetcher :: "bytes \<Rightarrow> err + 'h"
  medianFetcher :: "bytes \<Rightarrow> err + 'm"

definition UnmarshalFetcherJSON ::
  "('b, 'h, 'm) Unmarshal \<Rightarrow> bytes \<Rightarrow> ('b, 'h, 'm) Fetcher option \<times> err option" where
  "UnmarshalFetcherJSON json bs =
     (let (fetcher, e) =
        (case header json bs of
           Inl e \<Rightarrow> (None, Some e)
         | Inr ty \<Rightarrow>
             if ty = FetcherTypeBridge then
               (case bridgeFetcher json bs of
                  Inl e \<Rightarrow> (None, Some e)
                | Inr b \<Rightarrow> (Some (IsBridgeFetcher b), None))
             else if ty = FetcherTypeHttp then
               (case httpFetcher json bs of
                  Inl e \<Rightarrow> (None, Some e)
                | Inr h \<Rightarrow> (Some (IsHttpFetcher h), None))
             else if ty = FetcherTypeMedian then
               (case medianFetcher json bs of
                  Inl e \<Rightarrow> (None, Some e)
                | Inr m \<Rightarrow> (Some (IsMedianFetcher m), None))
             else (None, Some (New ''unknown fetcher type'')))
      in (fetcher, withStack e))"

text \<open>
  The loop of \<open>Fetchers.UnmarshalJSON\<close>: \<open>f\<close> is the receiver \<open>*f\<close>, which the loop
  appends to as it goes.
\<close>

fun unmarshal_each ::
  "('b, 'h, 'm) Unmarshal \<Rightarrow> bytes list \<Rightarrow> ('b, 'h, 'm) Fetcher option list
     \<Rightarrow> ('b, 'h, 'm) Fetcher option list \<times> err option" where
  "unmarshal_each json [] f = (f, None)"
| "unmarshal_each json (fetcherBytes # rest) f =
     (case UnmarshalFetcherJSON json fetcherBytes of
        (fetcher, Some e) \<Rightarrow> (f, Some e)
      | (fetcher, None) \<Rightarrow> unmarshal_each json rest (f @ [fetcher]))"

definition Fetchers_UnmarshalJSON ::
  "('b, 'h, 'm) Unmarshal \<Rightarrow> bytes \<Rightarrow> ('b, 'h, 'm) Fetcher option list
     \<Rightarrow> ('b, 'h, 'm) Fetcher option list \<times> err option" where
  "Fetchers_UnmarshalJSON json bs f =
     (let (f', e) =
        (case rawMessages json bs of
           Inl e \<Rightarrow> (f, Some e)
         | Inr spec \<Rightarrow> unmarshal_each json spec f)
      in (f', withStack e))"

section \<open>Package web: the job-spec controller\<close>

record StoreConfig =
  Dev :: bool
  FeatureFluxMonitor :: bool
  FeatureOffchainReporting :: bool

text \<open>
  Modelled from the spec: the types of package models are not part of the sources at
  hand. The spec describes a V1 job spec as identified by a string and holding a set of
  initiators, each of a trigger kind; \<open>InitiatorsFor\<close> selects the initiators of a kind.
\<close>

record Initiator =
  Type :: string

record JobSpec =
  spec_ID :: string
  Initiators :: "Initiator list"

definition InitiatorFluxMonitor :: string where
  "InitiatorFluxMonitor = ''fluxmonitor''"

definition InitiatorsFor :: "JobSpec \<Rightarrow> string \<Rightarrow> Initiator list" where
  "InitiatorsFor js ty = filter (\<lambda>i. Type i = ty) (Initiators js)"

text \<open>The zero value \<open>models.JobSpec{}\<close>.\<close>

definition zero_JobSpec :: JobSpec where
  "zero_JobSpec = \<lparr>spec_ID = [], Initiators = []\<rparr>"

text \<open>
  The collaborators of the controller: the configuration of the store, the decoding of a
  request body into a job spec (\<open>ShouldBindJSON\<close> followed by \<open>NewJobFromRequest\<close>), the
  parsing of identifiers, and the operations of the application. A request is its
  body and its path parameter \<open>SpecID\<close>.
\<close>

record 'req Application =
  Config :: StoreConfig
  ShouldBindJSON :: "bytes \<Rightarrow> err + 'req"
  NewJobFromRequest :: "'req \<Rightarrow> JobSpec"
  ValidateJob :: "JobSpec \<Rightarrow> err option"
  NotifyExternalInitiator :: "JobSpec \<Rightarrow> err option"
  AddJob :: "JobSpec \<Rightarrow> err option"
  NewIDFromString :: "string \<Rightarrow> err + ID"
  Atoi :: "string \<Rightarrow> err + int"
  ArchiveJob :: "ID \<Rightarrow> err option"
  DeleteJobV2 :: "32 word \<Rightarrow> err option"

record Context =
  Body :: bytes
  SpecID :: string

text \<open>
  Modelled from the spec: the helpers \<open>jsonAPIError\<close>, \<open>jsonAPIResponse\<close> and
  \<open>jsonAPIResponseWithStatus\<close> of package web are not part of the sources at hand. The
  spec describes the answers of the web layer by their status; a response is the status
  that the handler passes and what it sends with it: an error, a resource or nothing.
\<close>

datatype payload = ErrorBody err | JobBody JobSpec | NoBody

record Response =
  Status :: nat
  Payload :: payload

definition StatusOK :: nat where "StatusOK = 200"
definition StatusNoContent :: nat where "StatusNoContent = 204"
definition StatusBadRequest :: nat where "StatusBadRequest = 400"
definition StatusNotFound :: nat where "StatusNotFound = 404"
definition StatusUnprocessableEntity :: nat where "StatusUnprocessableEntity = 422"
definition StatusInternalServerError :: nat where "StatusInternalServerError = 500"
definition StatusNotImplemented :: nat where "StatusNotImplemented = 501"

definition jsonAPIError :: "nat \<Rightarrow> err \<Rightarrow> Response" where
  "jsonAPIError st e = \<lparr>Status = st, Payload = ErrorBody e\<rparr>"

definition jsonAPIResponse :: "JobSpec \<Rightarrow> Response" where
  "jsonAPIResponse js = \<lparr>Status = StatusOK, Payload = JobBody js\<rparr>"

definition jsonAPIResponseWithStatus :: "payload \<Rightarrow> nat \<Rightarrow> Response" where
  "jsonAPIResponseWithStatus resource st = \<lparr>Status = st, Payload = resource\<rparr>"

definition requireImplemented :: "'req Application \<Rightarrow> JobSpec \<Rightarrow> err option" where
  "requireImplemented app js =
     (let cfg = Config app
      in if \<not> Dev cfg \<and> \<not> FeatureFluxMonitor cfg then
           (if length (InitiatorsFor js InitiatorFluxMonitor) > 0
            then Some (New ''The Flux Monitor feature is disabled by configuration'')
            else None)
         else None)"

definition getAndCheckJobSpec ::
  "'req Application \<Rightarrow> Context \<Rightarrow> JobSpec \<times> nat \<times> err option" where
  "getAndCheckJobSpec app c =
     (case ShouldBindJSON app (Body c) of
        Inl e \<Rightarrow> (zero_JobSpec, StatusBadRequest, Some e)
      | Inr jsr \<Rightarrow>
          (let js = NewJobFromRequest app jsr
           in case requireImplemented app js of
                Some e \<Rightarrow> (zero_JobSpec, StatusNotImplemented, Some e)
              | None \<Rightarrow>
                  (case ValidateJob app js of
                     Some e \<Rightarrow> (zero_JobSpec, StatusBadRequest, Some e)
                   | None \<Rightarrow> (js, 0, None))))"

definition Create :: "'req Application \<Rightarrow> Context \<Rightarrow> Response" where
  "Create app c =
     (case getAndCheckJobSpec app c of
        (js, httpStatus, Some e) \<Rightarrow> jsonAPIError httpStatus e
      | (js, httpStatus, None) \<Rightarrow>
          (case NotifyExternalInitiator app js of
             Some e \<Rightarrow> jsonAPIError StatusInternalServerError e
           | None \<Rightarrow>
               (case AddJob app js of
                  Some e \<Rightarrow> jsonAPIError StatusInternalServerError e
                | None \<Rightarrow> jsonAPIResponse js)))"

definition Destroy :: "'req Application \<Rightarrow> Context \<Rightarrow> Response" where
  "Destroy app c =
     (case NewIDFromString app (SpecID c) of
        Inl e \<Rightarrow> jsonAPIError StatusUnprocessableEntity e
      | Inr i \<Rightarrow>
          (let e = ArchiveJob app i
           in if map_option Cause e = Some ErrorNotFound then
                jsonAPIError StatusNotFound (New ''JobSpec not found'')
              else case e of
                     Some e' \<Rightarrow> jsonAPIError StatusInternalServerError e'
                   | None \<Rightarrow> jsonAPIResponseWithStatus NoBody StatusNoContent))"

text \<open>
  \<open>DestroyV2\<close>: \<open>strconv.Atoi\<close> yields an \<open>int\<close>, and the conversion \<open>int32(jobID)\<close>
  keeps its low 32 bits.
\<close>

definition DestroyV2 :: "'req Application \<Rightarrow> Context \<Rightarrow> Response" where
  "DestroyV2 app c =
     (case Atoi app (SpecID c) of
        Inl e \<Rightarrow> jsonAPIError StatusUnprocessableEntity e
      | Inr jobID \<Rightarrow>
          (let e = DeleteJobV2 app (word_of_int jobID)
           in if map_option Cause e = Some ErrorNotFound then
                jsonAPIError StatusNotFound (New ''JobSpec not found'')
              else case e of
                     Some e' \<Rightarrow> jsonAPIError StatusInternalServerError e'
                   | None \<Rightarrow> jsonAPIResponseWithStatus NoBody StatusNoContent))"

section \<open>Vocabulary of the properties\<close>

text \<open>
  The entry \<open>id\<close> of the body of an HTTP task, an entry of the request data of a bridge
  task, the HTTP tasks among the calls that were made between two worlds, and the HTTP
  task that a bridge task builds for a resolved URL and a generated identifier.
\<close>

definition body_id :: "HTTPTask \<Rightarrow> iface option" where
  "body_id h = (case http_RequestData h of None \<Rightarrow> None | Some m \<Rightarrow> m ''id'')"

definition request_entry :: "BridgeTask \<Rightarrow> string \<Rightarrow> iface option" where
  "request_entry t k = (case RequestData t of None \<Rightarrow> None | Some m \<Rightarrow> m k)"

fun http_tasks :: "call list \<Rightarrow> HTTPTask list" where
  "http_tasks [] = []"
| "http_tasks (CallHTTP h # cs) = h # http_tasks cs"
| "http_tasks (c # cs) = http_tasks cs"

definition delegated :: "World \<Rightarrow> World \<Rightarrow> HTTPTask list" where
  "delegated w w' = http_tasks (drop (length (calls w)) (calls w'))"

definition bridge_request :: "BridgeTask \<Rightarrow> string \<Rightarrow> ID \<Rightarrow> HTTPTask" where
  "bridge_request t url i =
     \<lparr>URL = url, Method = ''POST'',
      http_RequestData =
        Some ((case RequestData t of None \<Rightarrow> Map.empty | Some m \<Rightarrow> m)(''id'' \<mapsto> IDValue i)),
      AllowUnrestrictedNetworkAccess = True, http_config = config t\<rparr>"

section \<open>Concrete instances\<close>

text \<open>
  A registry with one bridge, a task for it that was decoded without request data, a
  network that answers every \<open>POST\<close>, and the worlds and tasks that two successive runs
  lead to.
\<close>

definition example_orm :: ORM where
  "example_orm =
     \<lparr>FindBridge = (\<lambda>name. if name = ''coinprice''
                             then Inr \<lparr>BridgeURL = ''http://adapter.local/price''\<rparr>
                             else Inl ErrorNotFound)\<rparr>"

definition example_task :: BridgeTask where
  "example_task =
     \<lparr>Name = ''coinprice'', RequestData = None, orm = example_orm,
      config = \<lparr>DefaultHTTPTimeout = 15\<rparr>\<rparr>"

definition example_network :: "HTTPTask \<Rightarrow> err + bytes" where
  "example_network h = (if Method h = ''POST'' then Inr ''42'' else Inl (Foreign ''refused''))"

definition example_input :: Result where
  "example_input = \<lparr>Value = Bytes ''7'', Error = None\<rparr>"

definition world0 :: World where
  "world0 = \<lparr>nextID = 0, calls = []\<rparr>"

definition example_request :: "nat \<Rightarrow> HTTPTask" where
  "example_request n =
     \<lparr>URL = ''http://adapter.local/price'', Method = ''POST'',
      http_RequestData = Some [''id'' \<mapsto> IDValue (ID n)],
      AllowUnrestrictedNetworkAccess = True, http_config = \<lparr>DefaultHTTPTimeout = 15\<rparr>\<rparr>"

definition example_task_after :: "nat \<Rightarrow> BridgeTask" where
  "example_task_after n = example_task\<lparr>RequestData := Some [''id'' \<mapsto> IDValue (ID n)]\<rparr>"

definition world1 :: World where
  "world1 = \<lparr>nextID = 1,
             calls = [CallFindBridge ''coinprice'', CallNewID, CallHTTP (example_request 0),
                      CallDebugw ''42'' ''http://adapter.local/price'']\<rparr>"

definition world2 :: World where
  "world2 = \<lparr>nextID = 2,
             calls = calls world1 @
                     [CallFindBridge ''coinprice'', CallNewID, CallHTTP (example_request 1),
                      CallDebugw ''42'' ''http://adapter.local/price'']\<rparr>"

text \<open>
  A collection of two stage documents, the second of an unknown type, and what
  \<open>json.Unmarshal\<close> yields on these documents at the target types of the source.
\<close>

definition bridge_doc :: bytes where
  \<open>bridge_doc = ''{"type":"bridge","name":"coinprice"}''\<close>

definition nonsense_doc :: bytes where
  \<open>nonsense_doc = ''{"type":"nonsense"}''\<close>

definition example_collection :: bytes where
  \<open>example_collection = ''[{"type":"bridge","name":"coinprice"},{"type":"nonsense"}]''\<close>

definition example_json :: "(string, string, string) Unmarshal" where
  "example_json =
     \<lparr>rawMessages = (\<lambda>bs. if bs = example_collection then Inr [bridge_doc, nonsense_doc]
                           else Inl (Foreign ''unexpected end of JSON input'')),
      header = (\<lambda>bs. if bs = bridge_doc then Inr ''bridge''
                      else if bs = nonsense_doc then Inr ''nonsense''
                      else Inl (Foreign ''unexpected end of JSON input'')),
      bridgeFetcher = (\<lambda>bs. if bs = bridge_doc then Inr ''coinprice''
                             else Inl (Foreign ''unexpected end of JSON input'')),
      httpFetcher = (\<lambda>bs. Inl (Foreign ''unexpected end of JSON input'')),
      medianFetcher = (\<lambda>bs. Inl (Foreign ''unexpected end of JSON input''))\<rparr>"

text \<open>A fetcher with three transformers, one of them owned by another.\<close>

definition example_fetcher :: BaseFetcher where
  "example_fetcher =
     \<lparr>fetcher_ID = 1,
      Transformers = [Transformer 2 None 0 [Transformer 3 None 0 []], Transformer 4 None 0 []],
      OffchainReportingJobID = ID 0, FluxMonitorJobID = ID 0, DirectRequestJobID = ID 0,
      notifiee = None, notified = 0\<rparr>"

text \<open>
  An application with both feature flags and dev mode off, whose store holds the V1 job
  \<open>a1b2\<close> and the V2 job \<open>1\<close>, and requests to it.
\<close>

definition flux_spec :: JobSpec where
  "flux_spec = \<lparr>spec_ID = ''a1b2'', Initiators = [\<lparr>Type = ''fluxmonitor''\<rparr>]\<rparr>"

definition example_app :: "JobSpec Application" where
  "example_app =
     \<lparr>Config = \<lparr>Dev = False, FeatureFluxMonitor = False, FeatureOffchainReporting = False\<rparr>,
      ShouldBindJSON = (\<lambda>body. if body = ''flux'' then Inr flux_spec
                                else Inl (Foreign ''invalid character'')),
      NewJobFromRequest = (\<lambda>jsr. jsr),
      ValidateJob = (\<lambda>js. None),
      NotifyExternalInitiator = (\<lambda>js. None),
      AddJob = (\<lambda>js. None),
      NewIDFromString = (\<lambda>s. if s = ''a1b2'' then Inr (ID 1) else if s = ''c3d4'' then Inr (ID 2)
                               else Inl (Foreign ''invalid id'')),
      Atoi = (\<lambda>s. if s = ''1'' then Inr 1 else if s = ''2'' then Inr 2
                    else if s = ''4294967297'' then Inr 4294967297
                    else Inl (Foreign ''invalid syntax'')),
      ArchiveJob = (\<lambda>i. if i = ID 1 then None else Some (WithStack ErrorNotFound)),
      DeleteJobV2 = (\<lambda>i. if i = 1 then None else Some (WithStack ErrorNotFound))\<rparr>"

definition flux_request :: Context where
  "flux_request = \<lparr>Body = ''flux'', SpecID = []\<rparr>"

definition delete_request :: "string \<Rightarrow> Context" where
  "delete_request s = \<lparr>Body = [], SpecID = s\<rparr>"

section \<open>Properties of the bridge task\<close>

lemma Run_inputs:
  "inputs \<noteq> [] \<Longrightarrow> BridgeTask_Run http t inputs w =
     (Returns \<lparr>Value = NilValue,
               Error = Some (Wrapf ErrWrongInputCardinality ''BridgeTask requires 0 inputs'')\<rparr>, t, w)"
  by (simp add: BridgeTask_Run_def)

lemma Run_unresolved:
  "FindBridge (orm t) (Name t) = Inl e \<Longrightarrow> BridgeTask_Run http t [] w =
     (Returns \<lparr>Value = NilValue, Error = Some e\<rparr>, t,
      w\<lparr>calls := calls w @ [CallFindBridge (Name t)]\<rparr>)"
  by (simp add: BridgeTask_Run_def getBridgeURLFromName_def)

lemma Run_resolved:
  "FindBridge (orm t) (Name t) = Inr b \<Longrightarrow> BridgeTask_Run http t [] w =
     (let h = bridge_request t (BridgeURL b) (ID (nextID w));
          t2 = t\<lparr>RequestData := http_RequestData h\<rparr>;
          result = http h [];
          w3 = w\<lparr>nextID := Suc (nextID w),
                 calls := calls w @ [CallFindBridge (Name t), CallNewID, CallHTTP h]\<rparr>
      in if Error result \<noteq> None then (Returns result, t2, w3)
         else case Value result of
                Bytes answer \<Rightarrow>
                  (Returns result, t2, w3\<lparr>calls := calls w3 @ [CallDebugw answer (BridgeURL b)]\<rparr>)
              | _ \<Rightarrow> (Panics, t2, w3))"
  by (cases "RequestData t")
     (simp_all add: BridgeTask_Run_def getBridgeURLFromName_def NewID_def Let_def
        bridge_request_def split: iface.splits)

lemma Run_resolved_task:
  "FindBridge (orm t) (Name t) = Inr b \<Longrightarrow> BridgeTask_Run http t [] w = (r, t', w') \<Longrightarrow>
     t' = t\<lparr>RequestData := http_RequestData (bridge_request t (BridgeURL b) (ID (nextID w)))\<rparr>"
  by (auto simp: Run_resolved Let_def split: if_splits iface.splits)

lemma Run_resolved_delegated:
  "FindBridge (orm t) (Name t) = Inr b \<Longrightarrow> BridgeTask_Run http t [] w = (r, t', w') \<Longrightarrow>
     delegated w w' = [bridge_request t (BridgeURL b) (ID (nextID w))] \<and> nextID w' = Suc (nextID w)"
  by (auto simp: Run_resolved Let_def delegated_def split: if_splits iface.splits)

lemma Run_unresolved_delegated:
  "FindBridge (orm t) (Name t) = Inl e \<Longrightarrow> BridgeTask_Run http t [] w = (r, t', w') \<Longrightarrow>
     delegated w w' = [] \<and> t' = t"
  by (auto simp: Run_unresolved delegated_def)

lemma body_id_bridge_request: "body_id (bridge_request t url i) = Some (IDValue i)"
  by (simp add: body_id_def bridge_request_def)

lemmas example_defs = example_orm_def example_task_def example_network_def world0_def
  example_request_def example_task_after_def world1_def world2_def HTTPTask_Run_def

lemma example_run1:
  "BridgeTask_Run (HTTPTask_Run example_network) example_task [] world0
     = (Returns \<lparr>Value = Bytes ''42'', Error = None\<rparr>, example_task_after 0, world1)"
  by (simp add: BridgeTask_Run_def getBridgeURLFromName_def NewID_def example_defs)

lemma example_run2:
  "BridgeTask_Run (HTTPTask_Run example_network) (example_task_after 0) [] world1
     = (Returns \<lparr>Value = Bytes ''42'', Error = None\<rparr>, example_task_after 1, world2)"
  by (simp add: BridgeTask_Run_def getBridgeURLFromName_def NewID_def example_defs)

lemma example_run_inputs:
  "BridgeTask_Run (HTTPTask_Run example_network) example_task [example_input] world0
     = (Returns \<lparr>Value = NilValue,
                   Error = Some (Wrapf ErrWrongInputCardinality ''BridgeTask requires 0 inputs'')\<rparr>,
        example_task, world0)"
  by (simp add: Run_inputs)

lemma example_found:
  "FindBridge (orm example_task) (Name example_task)
     = Inr \<lparr>BridgeURL = ''http://adapter.local/price''\<rparr>"
  by (simp add: example_orm_def example_task_def)

lemma example_answer:
  "HTTPTask_Run example_network (example_request n) [] = \<lparr>Value = Bytes ''42'', Error = None\<rparr>"
  by (simp add: HTTPTask_Run_def example_network_def example_request_def)

lemma example_delegated:
  "delegated world0 world1 = [example_request 0]" "delegated world1 world2 = [example_request 1]"
  by (simp_all add: delegated_def example_defs)

text \<open>
  C1: in a run with zero inputs, every HTTP task that the run delegates to carries the
  request data of the task, which is then not nil and binds \<open>id\<close> to the identifier
  generated in this run; the identifiers of two successive runs differ; and a run whose
  bridge URL resolves delegates to exactly one HTTP task.
\<close>

theorem BridgeTask_Run_fresh_id:
  assumes run1: "BridgeTask_Run http t [] w = (r1, t1, w1)"
      and run2: "BridgeTask_Run http' u [] w1 = (r2, u2, w2)"
  shows "(\<forall>h \<in> set (delegated w w1).
            http_RequestData h = RequestData t1 \<and> RequestData t1 \<noteq> None
            \<and> body_id h = Some (IDValue (ID (nextID w))))
       \<and> (\<forall>h1 \<in> set (delegated w w1). \<forall>h2 \<in> set (delegated w1 w2). body_id h1 \<noteq> body_id h2)
       \<and> (\<forall>b. FindBridge (orm t) (Name t) = Inr b \<longrightarrow> length (delegated w w1) = 1)"
proof -
  have one: "delegated w w1 = [] \<or>
      (delegated w w1 = [bridge_request t url (ID (nextID w))]
       \<and> t1 = t\<lparr>RequestData := http_RequestData (bridge_request t url (ID (nextID w)))\<rparr>
       \<and> nextID w1 = Suc (nextID w))" if "url = (case FindBridge (orm t) (Name t) of Inr b \<Rightarrow> BridgeURL b | Inl e \<Rightarrow> [])" for url
  proof (cases "FindBridge (orm t) (Name t)")
    case (Inl e)
    then show ?thesis using Run_unresolved_delegated [OF Inl run1] by simp
  next
    case (Inr b)
    then show ?thesis
      using Run_resolved_delegated [OF Inr run1] Run_resolved_task [OF Inr run1] that by simp
  qed
  have two: "delegated w1 w2 = [] \<or> (\<exists>url. delegated w1 w2 = [bridge_request u url (ID (nextID w1))])"
  proof (cases "FindBridge (orm u) (Name u)")
    case (Inl e)
    then show ?thesis using Run_unresolved_delegated [OF Inl run2] by simp
  next
    case (Inr b)
    then show ?thesis using Run_resolved_delegated [OF Inr run2] by blast
  qed
  have a: "\<forall>h \<in> set (delegated w w1).
            http_RequestData h = RequestData t1 \<and> RequestData t1 \<noteq> None
            \<and> body_id h = Some (IDValue (ID (nextID w)))"
    using one [OF refl] by (auto simp: body_id_bridge_request) (simp add: bridge_request_def)
  have b: "\<forall>h1 \<in> set (delegated w w1). \<forall>h2 \<in> set (delegated w1 w2). body_id h1 \<noteq> body_id h2"
    using one [OF refl] two by (auto simp: body_id_bridge_request)
  have c: "\<forall>b. FindBridge (orm t) (Name t) = Inr b \<longrightarrow> length (delegated w w1) = 1"
    using Run_resolved_delegated [OF _ run1] by simp
  from a b c show ?thesis by blast
qed


theorem BridgeTask_Run_fresh_id_witness:
  "BridgeTask_Run (HTTPTask_Run example_network) example_task [] world0
     = (Returns \<lparr>Value = Bytes ''42'', Error = None\<rparr>, example_task_after 0, world1)
   \<and> BridgeTask_Run (HTTPTask_Run example_network) (example_task_after 0) [] world1
     = (Returns \<lparr>Value = Bytes ''42'', Error = None\<rparr>, example_task_after 1, world2)
   \<and> delegated world0 world1 = [example_request 0]
   \<and> delegated world1 world2 = [example_request 1]
   \<and> http_RequestData (example_request 0) = RequestData (example_task_after 0)
   \<and> RequestData (example_task_after 0) \<noteq> None
   \<and> body_id (example_request 0) = Some (IDValue (ID (nextID world0)))
   \<and> body_id (example_request 0) \<noteq> body_id (example_request 1)
   \<and> FindBridge (orm example_task) (Name example_task) = Inr \<lparr>BridgeURL = ''http://adapter.local/price''\<rparr>
   \<and> length (delegated world0 world1) = 1"
proof -
  have found: "FindBridge (orm example_task) (Name example_task)
                 = Inr \<lparr>BridgeURL = ''http://adapter.local/price''\<rparr>"
    by (simp add: example_orm_def example_task_def)
  with BridgeTask_Run_fresh_id [OF example_run1 example_run2] example_run1 example_run2
  show ?thesis by (auto simp: example_delegated)
qed


text \<open>
  C2: with one input or more, the run returns at once a result whose error wraps the
  wrong-input-cardinality error, and the task and the world are as before: no bridge was
  looked up and no HTTP task was run. With no input the run goes on: its next call is the
  lookup of the bridge.
\<close>

theorem BridgeTask_Run_cardinality:
  "(inputs \<noteq> [] \<longrightarrow>
     (\<exists>e. BridgeTask_Run http t inputs w = (Returns \<lparr>Value = NilValue, Error = Some e\<rparr>, t, w)
          \<and> Cause e = ErrWrongInputCardinality))
   \<and> take (Suc (length (calls w))) (calls (snd (snd (BridgeTask_Run http t [] w))))
       = calls w @ [CallFindBridge (Name t)]"
  by (auto simp: BridgeTask_Run_def getBridgeURLFromName_def NewID_def Let_def
      split: sum.splits option.splits iface.splits prod.splits)

theorem BridgeTask_Run_cardinality_witness:
  "[example_input] \<noteq> []
   \<and> (\<exists>e. BridgeTask_Run (HTTPTask_Run example_network) example_task [example_input] world0
             = (Returns \<lparr>Value = NilValue, Error = Some e\<rparr>, example_task, world0)
          \<and> Cause e = ErrWrongInputCardinality)
   \<and> take (Suc (length (calls world0)))
        (calls (snd (snd (BridgeTask_Run (HTTPTask_Run example_network) example_task [] world0))))
       = calls world0 @ [CallFindBridge (Name example_task)]"
  using BridgeTask_Run_cardinality
    [of "[example_input]" "HTTPTask_Run example_network" example_task world0]
  by simp


text \<open>
  C7: when the bridge URL resolves, a run with zero inputs delegates to exactly one HTTP
  task: method \<open>POST\<close>, the resolved URL, the request data of the task with \<open>id\<close>
  added, unrestricted network access allowed, the configuration of the task. What the
  HTTP stage returns is returned unchanged: for any stage, when its result carries an error
  or the bytes of an answer; for the HTTP stage of the spec, always.
\<close>

theorem BridgeTask_Run_delegates:
  assumes found: "FindBridge (orm t) (Name t) = Inr b"
      and run: "BridgeTask_Run http t [] w = (r, t', w')"
  shows "(\<exists>h. delegated w w' = [h]
            \<and> URL h = BridgeURL b \<and> Method h = ''POST''
            \<and> AllowUnrestrictedNetworkAccess h = True \<and> http_config h = config t
            \<and> http_RequestData h =
                 Some ((case RequestData t of None \<Rightarrow> Map.empty | Some m \<Rightarrow> m)
                         (''id'' \<mapsto> IDValue (ID (nextID w))))
            \<and> (Error (http h []) \<noteq> None \<or> (\<exists>answer. Value (http h []) = Bytes answer)
                 \<longrightarrow> r = Returns (http h []))
            \<and> (\<forall>network. fst (BridgeTask_Run (HTTPTask_Run network) t [] w)
                           = Returns (HTTPTask_Run network h [])))"
proof -
  let ?h = "bridge_request t (BridgeURL b) (ID (nextID w))"
  have d: "delegated w w' = [?h]"
    using Run_resolved_delegated [OF found run] by simp
  have shape: "URL ?h = BridgeURL b \<and> Method ?h = ''POST''
            \<and> AllowUnrestrictedNetworkAccess ?h = True \<and> http_config ?h = config t
            \<and> http_RequestData ?h =
                 Some ((case RequestData t of None \<Rightarrow> Map.empty | Some m \<Rightarrow> m)
                         (''id'' \<mapsto> IDValue (ID (nextID w))))"
    by (simp add: bridge_request_def)
  have ret: "Error (http ?h []) \<noteq> None \<or> (\<exists>answer. Value (http ?h []) = Bytes answer)
                 \<longrightarrow> r = Returns (http ?h [])"
    using run by (auto simp: Run_resolved [OF found] Let_def split: if_splits iface.splits)
  have spec: "fst (BridgeTask_Run (HTTPTask_Run network) t [] w)
                = Returns (HTTPTask_Run network ?h [])" for network
    by (cases "network ?h") (simp_all add: Run_resolved [OF found] Let_def HTTPTask_Run_def)
  from d shape ret spec show ?thesis by blast
qed

theorem BridgeTask_Run_delegates_witness:
  "FindBridge (orm example_task) (Name example_task)
     = Inr \<lparr>BridgeURL = ''http://adapter.local/price''\<rparr>
   \<and> BridgeTask_Run (HTTPTask_Run example_network) example_task [] world0
     = (Returns \<lparr>Value = Bytes ''42'', Error = None\<rparr>, example_task_after 0, world1)
   \<and> delegated world0 world1 = [example_request 0]
   \<and> URL (example_request 0) = ''http://adapter.local/price''
   \<and> Method (example_request 0) = ''POST''
   \<and> AllowUnrestrictedNetworkAccess (example_request 0)
   \<and> HTTPTask_Run example_network (example_request 0) [] = \<lparr>Value = Bytes ''42'', Error = None\<rparr>"
  using BridgeTask_Run_delegates [OF example_found example_run1] example_found example_run1
  by (auto simp: example_delegated example_answer)

text \<open>
  C8, as the code has it: a run leaves the name and the collaborators of the task as they were, and
  every entry of its request data other than \<open>id\<close>. With an input, or when the lookup of
  the bridge fails, the task is unchanged altogether. With zero inputs and a resolved
  bridge the request data are not nil afterwards and bind \<open>id\<close> to the identifier
  generated in this run.
\<close>

theorem BridgeTask_Run_frame:
  assumes run: "BridgeTask_Run http t inputs w = (r, t', w')"
  shows "Name t' = Name t \<and> orm t' = orm t \<and> config t' = config t
       \<and> (\<forall>k. k \<noteq> ''id'' \<longrightarrow> request_entry t' k = request_entry t k)
       \<and> (inputs \<noteq> [] \<or> (\<exists>e. FindBridge (orm t) (Name t) = Inl e) \<longrightarrow> t' = t)
       \<and> (inputs = [] \<and> (\<exists>b. FindBridge (orm t) (Name t) = Inr b) \<longrightarrow>
            RequestData t' \<noteq> None \<and> request_entry t' ''id'' = Some (IDValue (ID (nextID w))))"
proof (cases "inputs = []")
  case False
  then show ?thesis using run by (simp add: Run_inputs)
next
  case True
  show ?thesis
  proof (cases "FindBridge (orm t) (Name t)")
    case (Inl e)
    then show ?thesis using run True by (simp add: Run_unresolved)
  next
    case (Inr b)
    have "t' = t\<lparr>RequestData := http_RequestData (bridge_request t (BridgeURL b) (ID (nextID w)))\<rparr>"
      using Run_resolved_task [OF Inr] run True by simp
    then show ?thesis using True Inr
      by (simp add: request_entry_def bridge_request_def split: option.splits)
  qed
qed

theorem BridgeTask_Run_frame_witness:
  "BridgeTask_Run (HTTPTask_Run example_network) example_task [] world0
     = (Returns \<lparr>Value = Bytes ''42'', Error = None\<rparr>, example_task_after 0, world1)
   \<and> Name (example_task_after 0) = Name example_task
   \<and> request_entry (example_task_after 0) ''name'' = request_entry example_task ''name''
   \<and> RequestData (example_task_after 0) \<noteq> None
   \<and> request_entry (example_task_after 0) ''id'' = Some (IDValue (ID (nextID world0)))
   \<and> [example_input] \<noteq> []
   \<and> snd (BridgeTask_Run (HTTPTask_Run example_network) example_task [example_input] world0)
       = (example_task, world0)"
  using BridgeTask_Run_frame [OF example_run1] BridgeTask_Run_frame [OF example_run_inputs]
    example_found example_run1 example_run_inputs
  by auto

text \<open>
  The request data of a task do change: a task decoded without request data has, after a
  run that reaches the HTTP stage, request data that bind \<open>id\<close>.
\<close>

theorem BridgeTask_Run_changes_RequestData:
  "RequestData (fst (snd (BridgeTask_Run (HTTPTask_Run example_network) example_task [] world0)))
     \<noteq> RequestData example_task"
  by (simp add: example_run1) (simp add: example_task_after_def example_task_def)

text \<open>
  C10: with the HTTP stage of the spec, whose result carries either an error or the bytes
  of the answer, a run returns a result for every task, every list of inputs, every world
  and every answer of the network: the type assertion never fails.
\<close>

theorem BridgeTask_Run_returns:
  "\<exists>result. fst (BridgeTask_Run (HTTPTask_Run network) t inputs w) = Returns result"
proof (cases "inputs = []")
  case False
  then show ?thesis by (simp add: Run_inputs)
next
  case True
  show ?thesis
  proof (cases "FindBridge (orm t) (Name t)")
    case (Inl e)
    then show ?thesis using True by (simp add: Run_unresolved)
  next
    case (Inr b)
    show ?thesis
      by (cases "network (bridge_request t (BridgeURL b) (ID (nextID w)))")
         (simp_all add: True Run_resolved [OF Inr] Let_def HTTPTask_Run_def)
  qed
qed

theorem BridgeTask_Run_returns_witness:
  "\<exists>result. fst (BridgeTask_Run (HTTPTask_Run example_network) example_task [] world0)
              = Returns result"
  using BridgeTask_Run_returns [of example_network example_task "[]" world0]
  by simp

text \<open>
  The assertion itself is unguarded: a stage that returned, without an error, a value
  that is not a byte slice would make the run panic.
\<close>

lemma BridgeTask_Run_assertion_panics:
  "fst (BridgeTask_Run (\<lambda>h inputs. \<lparr>Value = Other ''map'', Error = None\<rparr>) example_task [] world0)
     = Panics"
  by (simp add: BridgeTask_Run_def getBridgeURLFromName_def NewID_def example_defs)

section \<open>Properties of the decoding of fetchers\<close>

lemma example_header:
  "header example_json bridge_doc = Inr ''bridge''"
  "header example_json nonsense_doc = Inr ''nonsense''"
  by (simp_all add: example_json_def bridge_doc_def nonsense_doc_def)

lemma example_bridge_doc:
  "UnmarshalFetcherJSON example_json bridge_doc = (Some (IsBridgeFetcher ''coinprice''), None)"
  by (simp add: UnmarshalFetcherJSON_def example_json_def FetcherTypeBridge_def withStack_def)

lemma example_nonsense_doc:
  "UnmarshalFetcherJSON example_json nonsense_doc
     = (None, Some (WithStack (New ''unknown fetcher type'')))"
  by (simp add: UnmarshalFetcherJSON_def example_json_def FetcherTypeBridge_def withStack_def
      FetcherTypeHttp_def FetcherTypeMedian_def nonsense_doc_def bridge_doc_def)

lemma example_raw:
  "rawMessages example_json example_collection = Inr ([bridge_doc] @ nonsense_doc # [])"
  by (simp add: example_json_def)

lemma unmarshal_each_prefix:
  "\<forall>x \<in> set pre. snd (UnmarshalFetcherJSON json x) = None \<Longrightarrow>
     unmarshal_each json (pre @ rest) f
       = unmarshal_each json rest (f @ map (\<lambda>x. fst (UnmarshalFetcherJSON json x)) pre)"
proof (induction pre arbitrary: f)
  case Nil
  then show ?case by simp
next
  case (Cons x pre)
  obtain fetcher where "UnmarshalFetcherJSON json x = (fetcher, None)"
    using Cons.prems by (cases "UnmarshalFetcherJSON json x") auto
  then show ?case using Cons by simp
qed

text \<open>
  C3, as the code has it: when the elements before some element of the collection decode and that
  element does not, \<open>Fetchers.UnmarshalJSON\<close> returns the error of that element, with a
  stack annotation, and decodes nothing after it; the receiver has been extended by the
  fetchers decoded from the elements before the failing one.
\<close>

theorem Fetchers_UnmarshalJSON_fails_fast:
  assumes raw: "rawMessages json bs = Inr (pre @ bad # post)"
      and pre: "\<forall>x \<in> set pre. snd (UnmarshalFetcherJSON json x) = None"
      and bad: "snd (UnmarshalFetcherJSON json bad) = Some e"
  shows "Fetchers_UnmarshalJSON json bs f
           = (f @ map (\<lambda>x. fst (UnmarshalFetcherJSON json x)) pre, Some (WithStack e))"
proof -
  obtain fetcher where "UnmarshalFetcherJSON json bad = (fetcher, Some e)"
    using bad by (cases "UnmarshalFetcherJSON json bad") auto
  then have stop: "unmarshal_each json (bad # post) g = (g, Some e)" for g
    by simp
  have "unmarshal_each json (pre @ bad # post) f
          = (f @ map (\<lambda>x. fst (UnmarshalFetcherJSON json x)) pre, Some e)"
    by (simp only: unmarshal_each_prefix [OF pre] stop)
  then show ?thesis
    by (simp add: Fetchers_UnmarshalJSON_def raw withStack_def)
qed

theorem Fetchers_UnmarshalJSON_fails_fast_witness:
  "rawMessages example_json example_collection = Inr ([bridge_doc] @ nonsense_doc # [])
   \<and> snd (UnmarshalFetcherJSON example_json bridge_doc) = None
   \<and> snd (UnmarshalFetcherJSON example_json nonsense_doc)
       = Some (WithStack (New ''unknown fetcher type''))
   \<and> Fetchers_UnmarshalJSON example_json example_collection []
       = ([Some (IsBridgeFetcher ''coinprice'')],
          Some (WithStack (WithStack (New ''unknown fetcher type''))))"
proof -
  have pre: "\<forall>x \<in> set [bridge_doc]. snd (UnmarshalFetcherJSON example_json x) = None"
    by (simp add: example_bridge_doc)
  have bad: "snd (UnmarshalFetcherJSON example_json nonsense_doc)
               = Some (WithStack (New ''unknown fetcher type''))"
    by (simp add: example_nonsense_doc)
  from Fetchers_UnmarshalJSON_fails_fast [OF example_raw pre bad, of "[]"] example_raw pre bad
  show ?thesis by (simp add: example_bridge_doc)
qed

text \<open>
  The receiver is not left as it was: decoding a collection of a bridge document and a
  document of an unknown type into an empty receiver returns an error and leaves the
  bridge fetcher in the receiver.
\<close>

theorem Fetchers_UnmarshalJSON_keeps_prefix:
  "rawMessages example_json example_collection = Inr [bridge_doc, nonsense_doc]
   \<and> snd (UnmarshalFetcherJSON example_json nonsense_doc) \<noteq> None
   \<and> snd (Fetchers_UnmarshalJSON example_json example_collection []) \<noteq> None
   \<and> fst (Fetchers_UnmarshalJSON example_json example_collection [])
       = [Some (IsBridgeFetcher ''coinprice'')]
   \<and> fst (Fetchers_UnmarshalJSON example_json example_collection []) \<noteq> []"
  using example_raw
  by (simp add: Fetchers_UnmarshalJSON_def example_bridge_doc example_nonsense_doc withStack_def)

text \<open>
  C4, as the code has it: for a document whose type is none of \<open>bridge\<close>, \<open>http\<close> and \<open>median\<close>,
  \<open>UnmarshalFetcherJSON\<close> returns a nil fetcher and the error \<open>unknown fetcher type\<close> with
  a stack annotation. The error is the same whatever the document: its text is the fixed
  message, without the document.
\<close>

theorem UnmarshalFetcherJSON_unknown_type:
  assumes "header json bs = Inr ty"
      and "ty \<noteq> FetcherTypeBridge" and "ty \<noteq> FetcherTypeHttp" and "ty \<noteq> FetcherTypeMedian"
  shows "UnmarshalFetcherJSON json bs = (None, Some (WithStack (New ''unknown fetcher type'')))
       \<and> err_text (WithStack (New ''unknown fetcher type'')) = ''unknown fetcher type''"
  using assms by (simp add: UnmarshalFetcherJSON_def withStack_def)

theorem UnmarshalFetcherJSON_unknown_type_witness:
  "header example_json nonsense_doc = Inr ''nonsense''
   \<and> ''nonsense'' \<noteq> FetcherTypeBridge \<and> ''nonsense'' \<noteq> FetcherTypeHttp
   \<and> ''nonsense'' \<noteq> FetcherTypeMedian
   \<and> UnmarshalFetcherJSON example_json nonsense_doc
       = (None, Some (WithStack (New ''unknown fetcher type'')))"
proof -
  have t: "''nonsense'' \<noteq> FetcherTypeBridge" "''nonsense'' \<noteq> FetcherTypeHttp"
    "''nonsense'' \<noteq> FetcherTypeMedian"
    by (simp_all add: FetcherTypeBridge_def FetcherTypeHttp_def FetcherTypeMedian_def)
  from UnmarshalFetcherJSON_unknown_type [OF example_header(2) t] example_header(2) t
  show ?thesis by simp
qed

text \<open>
  The error of an unknown type is not annotated with the document: the document does not
  occur in its text.
\<close>

theorem UnmarshalFetcherJSON_unknown_type_not_annotated:
  "header example_json nonsense_doc = Inr ''nonsense''
   \<and> UnmarshalFetcherJSON example_json nonsense_doc
       = (None, Some (WithStack (New ''unknown fetcher type'')))
   \<and> \<not> annotated_with (WithStack (New ''unknown fetcher type'')) nonsense_doc"
  using example_header(2) example_nonsense_doc
  by (simp add: annotated_with_def nonsense_doc_def)

lemma Transformer_SetNotifiee_stages:
  "transformer_stages (Transformer_SetNotifiee n t)
     = map (\<lambda>(s, k). (Some n, Suc k)) (transformer_stages t)"
proof (induction t)
  case (Transformer i s k ts)
  then have owned: "map (\<lambda>x. transformer_stages (Transformer_SetNotifiee n x)) ts
               = map (\<lambda>x. map (\<lambda>(s, k). (Some n, Suc k)) (transformer_stages x)) ts"
    by simp
  show ?case by (simp add: map_concat comp_def owned)
qed

text \<open>
  C9: \<open>SetNotifiee\<close> on a fetcher sets the sink of the fetcher and of every transformer
  that it transitively owns, and every one of these stages receives exactly one call:
  stage by stage, the sink becomes the given one and the count of calls goes up by one.
\<close>

theorem BaseFetcher_SetNotifiee_reaches_all_once:
  "fetcher_stages (BaseFetcher_SetNotifiee n f)
     = map (\<lambda>(s, k). (Some n, Suc k)) (fetcher_stages f)"
  by (simp add: fetcher_stages_def BaseFetcher_SetNotifiee_def map_concat comp_def
      Transformer_SetNotifiee_stages)

theorem BaseFetcher_SetNotifiee_reaches_all_once_witness:
  "fetcher_stages example_fetcher = [(None, 0), (None, 0), (None, 0), (None, 0)]
   \<and> fetcher_stages (BaseFetcher_SetNotifiee (Notifiee 9) example_fetcher)
       = [(Some (Notifiee 9), 1), (Some (Notifiee 9), 1), (Some (Notifiee 9), 1),
          (Some (Notifiee 9), 1)]"
  using BaseFetcher_SetNotifiee_reaches_all_once [of "Notifiee 9" example_fetcher]
  by (simp add: fetcher_stages_def example_fetcher_def)

section \<open>Properties of the job-spec controller\<close>

lemma example_gate_facts:
  "ShouldBindJSON (example_app\<lparr>ValidateJob := v\<rparr>) (Body flux_request) = Inr flux_spec"
  "InitiatorsFor (NewJobFromRequest (example_app\<lparr>ValidateJob := v\<rparr>) flux_spec)
     InitiatorFluxMonitor \<noteq> []"
  "\<not> Dev (Config (example_app\<lparr>ValidateJob := v\<rparr>))"
  "\<not> FeatureFluxMonitor (Config (example_app\<lparr>ValidateJob := v\<rparr>))"
  by (simp_all add: example_app_def flux_request_def flux_spec_def InitiatorsFor_def
      InitiatorFluxMonitor_def)

text \<open>
  C5: a request that binds to a job spec with a flux-monitor initiator, made while dev
  mode and the flux-monitor flag are both off, is refused with status 501 and the
  not-implemented error, whatever validation would say of it: the gate comes first. With
  dev mode or the flag on, the same request passes the gate: it is answered by validation,
  with status 400 and the validation error when validation fails, and with the job spec
  when validation succeeds.
\<close>

theorem feature_gate:
  assumes bind: "ShouldBindJSON app (Body c) = Inr jsr"
      and flux: "InitiatorsFor (NewJobFromRequest app jsr) InitiatorFluxMonitor \<noteq> []"
      and off: "\<not> Dev (Config app)" "\<not> FeatureFluxMonitor (Config app)"
  shows "(\<forall>validate. getAndCheckJobSpec (app\<lparr>ValidateJob := validate\<rparr>) c
            = (zero_JobSpec, 501,
               Some (New ''The Flux Monitor feature is disabled by configuration'')))
       \<and> Create app c
           = \<lparr>Status = 501,
              Payload = ErrorBody (New ''The Flux Monitor feature is disabled by configuration'')\<rparr>
       \<and> (\<forall>e. ValidateJob app (NewJobFromRequest app jsr) = Some e \<longrightarrow>
             (\<forall>cfg. Dev cfg \<or> FeatureFluxMonitor cfg \<longrightarrow>
                Create (app\<lparr>Config := cfg\<rparr>) c = \<lparr>Status = 400, Payload = ErrorBody e\<rparr>))
       \<and> (ValidateJob app (NewJobFromRequest app jsr) = None \<longrightarrow>
             (\<forall>cfg. Dev cfg \<or> FeatureFluxMonitor cfg \<longrightarrow>
                getAndCheckJobSpec (app\<lparr>Config := cfg\<rparr>) c
                  = (NewJobFromRequest app jsr, 0, None)))"
proof -
  let ?js = "NewJobFromRequest app jsr"
  have closed: "requireImplemented (app\<lparr>ValidateJob := validate\<rparr>) ?js
                  = Some (New ''The Flux Monitor feature is disabled by configuration'')"
    for validate
    using flux off by (simp add: requireImplemented_def)
  have a: "getAndCheckJobSpec (app\<lparr>ValidateJob := validate\<rparr>) c
            = (zero_JobSpec, 501,
               Some (New ''The Flux Monitor feature is disabled by configuration''))"
    for validate
    using bind closed [of validate] by (simp add: getAndCheckJobSpec_def StatusNotImplemented_def)
  have "getAndCheckJobSpec app c
            = (zero_JobSpec, 501,
               Some (New ''The Flux Monitor feature is disabled by configuration''))"
    using a [of "ValidateJob app"] by simp
  then have b: "Create app c
           = \<lparr>Status = 501,
              Payload = ErrorBody (New ''The Flux Monitor feature is disabled by configuration'')\<rparr>"
    by (simp add: Create_def jsonAPIError_def)
  have opened: "requireImplemented (app\<lparr>Config := cfg\<rparr>) ?js = None"
    if "Dev cfg \<or> FeatureFluxMonitor cfg" for cfg
    using that by (auto simp: requireImplemented_def)
  have c: "Create (app\<lparr>Config := cfg\<rparr>) c = \<lparr>Status = 400, Payload = ErrorBody e\<rparr>"
    if "ValidateJob app ?js = Some e" "Dev cfg \<or> FeatureFluxMonitor cfg" for e cfg
    using that bind opened [of cfg]
    by (simp add: Create_def getAndCheckJobSpec_def jsonAPIError_def StatusBadRequest_def)
  have d: "getAndCheckJobSpec (app\<lparr>Config := cfg\<rparr>) c = (?js, 0, None)"
    if "ValidateJob app ?js = None" "Dev cfg \<or> FeatureFluxMonitor cfg" for cfg
    using that bind opened [of cfg] by (simp add: getAndCheckJobSpec_def)
  from a b c d show ?thesis by blast
qed

theorem feature_gate_witness:
  "ShouldBindJSON example_app (Body flux_request) = Inr flux_spec
   \<and> InitiatorsFor (NewJobFromRequest example_app flux_spec) InitiatorFluxMonitor \<noteq> []
   \<and> \<not> Dev (Config example_app) \<and> \<not> FeatureFluxMonitor (Config example_app)
   \<and> Create example_app flux_request
       = \<lparr>Status = 501,
          Payload = ErrorBody (New ''The Flux Monitor feature is disabled by configuration'')\<rparr>
   \<and> getAndCheckJobSpec
        (example_app\<lparr>Config := \<lparr>Dev = False, FeatureFluxMonitor = True,
                                FeatureOffchainReporting = False\<rparr>\<rparr>) flux_request
       = (flux_spec, 0, None)
   \<and> Create (example_app\<lparr>ValidateJob := (\<lambda>js. Some (New ''no tasks'')),
                          Config := \<lparr>Dev = True, FeatureFluxMonitor = False,
                                     FeatureOffchainReporting = False\<rparr>\<rparr>) flux_request
       = \<lparr>Status = 400, Payload = ErrorBody (New ''no tasks'')\<rparr>"
proof -
  let ?strict = "example_app\<lparr>ValidateJob := (\<lambda>js. Some (New ''no tasks''))\<rparr>"
  have same: "example_app\<lparr>ValidateJob := ValidateJob example_app\<rparr> = example_app"
    by simp
  have valid: "ValidateJob example_app (NewJobFromRequest example_app flux_spec) = None"
    by (simp add: example_app_def)
  have invalid: "ValidateJob ?strict (NewJobFromRequest ?strict flux_spec) = Some (New ''no tasks'')"
    by simp
  have newjob: "NewJobFromRequest example_app flux_spec = flux_spec"
    by (simp add: example_app_def)
  note lenient = feature_gate [OF example_gate_facts [of "ValidateJob example_app", unfolded same]]
  note strict = feature_gate [OF example_gate_facts [of "\<lambda>js. Some (New ''no tasks'')"]]
  from lenient strict valid invalid newjob example_gate_facts [of "ValidateJob example_app", unfolded same]
  show ?thesis by auto
qed

text \<open>
  How \<open>Destroy\<close> and \<open>DestroyV2\<close> answer what the store reports, for an identifier that
  parses: 404 exactly when the store reports an error whose cause is the not-found error,
  500 with the error exactly when it reports any other error, and 204 without a body
  exactly when it reports none. \<open>DestroyV2\<close> asks the store for the parsed integer
  converted to 32 bits, so two requests whose integers differ by a multiple of \<open>2^32\<close>
  are one request to the store.
\<close>

lemma destroy_classification:
  "(NewIDFromString app (SpecID c) = Inr i \<longrightarrow>
      ((\<exists>e. ArchiveJob app i = Some e \<and> Cause e = ErrorNotFound)
          \<longleftrightarrow> Destroy app c = \<lparr>Status = 404, Payload = ErrorBody (New ''JobSpec not found'')\<rparr>)
    \<and> (\<forall>e. ArchiveJob app i = Some e \<and> Cause e \<noteq> ErrorNotFound
          \<longleftrightarrow> Destroy app c = \<lparr>Status = 500, Payload = ErrorBody e\<rparr>)
    \<and> (ArchiveJob app i = None \<longleftrightarrow> Destroy app c = \<lparr>Status = 204, Payload = NoBody\<rparr>))
   \<and> (Atoi app (SpecID c) = Inr n \<longrightarrow>
      ((\<exists>e. DeleteJobV2 app (word_of_int n) = Some e \<and> Cause e = ErrorNotFound)
          \<longleftrightarrow> DestroyV2 app c = \<lparr>Status = 404, Payload = ErrorBody (New ''JobSpec not found'')\<rparr>)
    \<and> (\<forall>e. DeleteJobV2 app (word_of_int n) = Some e \<and> Cause e \<noteq> ErrorNotFound
          \<longleftrightarrow> DestroyV2 app c = \<lparr>Status = 500, Payload = ErrorBody e\<rparr>)
    \<and> (DeleteJobV2 app (word_of_int n) = None
          \<longleftrightarrow> DestroyV2 app c = \<lparr>Status = 204, Payload = NoBody\<rparr>))"
  by (auto simp: Destroy_def DestroyV2_def jsonAPIError_def jsonAPIResponseWithStatus_def
      StatusNotFound_def StatusInternalServerError_def StatusNoContent_def Let_def
      split: option.splits)

lemma int32_wraps: "(4294967296 :: 32 word) = 0"
  by simp

lemma int32_conversion: "(word_of_int (n + 2 ^ 32 * k) :: 32 word) = word_of_int n"
  by (simp add: int32_wraps)

lemma DestroyV2_low_32_bits:
  "Atoi app (SpecID c) = Inr n \<Longrightarrow> Atoi app (SpecID c') = Inr (n + 2 ^ 32 * k) \<Longrightarrow>
     DestroyV2 app c' = DestroyV2 app c"
  by (simp add: DestroyV2_def int32_wraps)

lemma example_V2_store:
  "DeleteJobV2 example_app i = (if i = 1 then None else Some (WithStack ErrorNotFound))"
  by (simp add: example_app_def)

lemma example_Atoi:
  "Atoi example_app (SpecID (delete_request ''1'')) = Inr 1"
  "Atoi example_app (SpecID (delete_request ''2'')) = Inr 2"
  "Atoi example_app (SpecID (delete_request ''4294967297'')) = Inr 4294967297"
  by (simp_all add: example_app_def delete_request_def)

text \<open>
  C6: a deletion whose target does not exist is to be answered 404. \<open>DestroyV2\<close> does so
  for the identifier 2, which the store does not hold, but not for 4294967297: no V2 job
  has this identifier, yet the conversion to 32 bits turns it into 1, the store is asked
  to delete job 1, which it holds, and the answer is 204 without a body, the answer to the
  request for 1.
\<close>

theorem DestroyV2_truncates_ID:
  "Atoi example_app (SpecID (delete_request ''4294967297'')) = Inr 4294967297
   \<and> (word_of_int 4294967297 :: 32 word) = 1
   \<and> DeleteJobV2 example_app 1 = None
   \<and> DestroyV2 example_app (delete_request ''2'')
       = \<lparr>Status = 404, Payload = ErrorBody (New ''JobSpec not found'')\<rparr>
   \<and> DestroyV2 example_app (delete_request ''4294967297'') = \<lparr>Status = 204, Payload = NoBody\<rparr>
   \<and> DestroyV2 example_app (delete_request ''4294967297'')
       = DestroyV2 example_app (delete_request ''1'')"
  by (simp add: example_Atoi example_V2_store DestroyV2_def jsonAPIError_def
      jsonAPIResponseWithStatus_def StatusNotFound_def StatusNoContent_def)

end
